theory Spec2Isabelle
  imports Main
begin

section \<open>The StoryWeaver browser client (frontend/app.js)\<close>

text \<open>
  The client is event driven: each handler reads and mutates the page and the controller
  object, and some handlers await one network response. A handler is modelled as a
  function from the state before it to the state after it; the response the network gives
  to its request is an argument. A handler runs here from its first statement to its last
  without another handler in between.

  An element looked up with \<^verbatim>\<open>getElementById\<close> may be missing; the source guards most
  lookups with \<^verbatim>\<open>if (el)\<close>. Every element is therefore an \<open>option\<close>: \<open>None\<close> is the
  missing element, \<open>Some v\<close> the element with the part of its state the code touches.
\<close>

subsection \<open>Strings\<close>

text \<open>
  A string is a list of 8-bit characters, read as the code units below 256.
  \<^verbatim>\<open>String.prototype.trim\<close> removes white space and line terminators at both ends; in
  this range they are TAB, LF, VT, FF, CR, SPACE and NBSP.
\<close>

definition js_whitespace :: "char \<Rightarrow> bool" where
  "js_whitespace c =
     (c = CHR 0x09 \<or> c = CHR 0x0A \<or> c = CHR 0x0B \<or> c = CHR 0x0C \<or> c = CHR 0x0D
      \<or> c = CHR 0x20 \<or> c = CHR 0xA0)"

definition trim :: "string \<Rightarrow> string" where
  "trim s = rev (dropWhile js_whitespace (rev (dropWhile js_whitespace s)))"

text \<open>
  The class attribute of an element is split into tokens at ASCII white space
  (TAB, LF, FF, CR, SPACE); a selector \<^verbatim>\<open>.a.b\<close> matches an element whose token set holds
  both \<open>a\<close> and \<open>b\<close>.
\<close>

definition html_space :: "char \<Rightarrow> bool" where
  "html_space c =
     (c = CHR 0x09 \<or> c = CHR 0x0A \<or> c = CHR 0x0C \<or> c = CHR 0x0D \<or> c = CHR 0x20)"

fun tokens_from :: "string \<Rightarrow> string \<Rightarrow> string list" where
  "tokens_from cur [] = (if cur = [] then [] else [cur])"
| "tokens_from cur (c # cs) =
     (if html_space c
      then (if cur = [] then tokens_from [] cs else cur # tokens_from [] cs)
      else tokens_from (cur @ [c]) cs)"

definition class_tokens :: "string \<Rightarrow> string list" where
  "class_tokens cls = tokens_from [] cls"

subsection \<open>Values parsed from JSON\<close>

text \<open>
  \<^verbatim>\<open>response.json()\<close> yields a JavaScript value. Numbers are observed by the code only
  through their truthiness, so an integer stands for them. \<open>JUndefined\<close> is what reading
  an absent property gives.
\<close>

datatype jsval =
    JUndefined
  | JNull
  | JBool bool
  | JNum int
  | JStr string
  | JArr "jsval list"
  | JObj "(string \<times> jsval) list"

datatype error = TypeError

fun truthy :: "jsval \<Rightarrow> bool" where
  "truthy JUndefined = False"
| "truthy JNull = False"
| "truthy (JBool b) = b"
| "truthy (JNum n) = (n \<noteq> 0)"
| "truthy (JStr s) = (s \<noteq> [])"
| "truthy (JArr xs) = True"
| "truthy (JObj kvs) = True"

text \<open>
  Reading a property: on \<^verbatim>\<open>null\<close> and \<^verbatim>\<open>undefined\<close> it throws; on an object parsed from
  JSON the last entry with that key wins; the property names the client reads
  (\<^verbatim>\<open>stories\<close>, \<^verbatim>\<open>id\<close>, \<^verbatim>\<open>title\<close>, \<^verbatim>\<open>success\<close>) are defined on no primitive and on no
  array.
\<close>

fun get_prop :: "jsval \<Rightarrow> string \<Rightarrow> error + jsval" where
  "get_prop JUndefined k = Inl TypeError"
| "get_prop JNull k = Inl TypeError"
| "get_prop (JObj kvs) k =
     Inr (case map_of (rev kvs) k of None \<Rightarrow> JUndefined | Some v \<Rightarrow> v)"
| "get_prop v k = Inr JUndefined"

subsection \<open>The network\<close>

text \<open>
  \<^verbatim>\<open>fetch\<close> either rejects (with an error message) or settles with a response: a status,
  a status text, and a body that \<^verbatim>\<open>response.json()\<close> either parses or rejects (with a
  message). \<^verbatim>\<open>response.ok\<close> is a status from 200 to 299.
\<close>

record 'b response =
  status :: nat
  statusText :: string
  json_body :: "string + 'b"

datatype 'b fetch = Rejected string | Settled "'b response"

definition ok :: "'b response \<Rightarrow> bool" where
  "ok r = (200 \<le> status r \<and> status r \<le> 299)"

text \<open>The requests the client issues, with the values it puts into them.\<close>

datatype request =
    GetStories
  | GetStory jsval
  | PostMessage jsval string
  | GetMessages jsval
  | ProposeExpansion jsval string string
  | UploadPdf string

subsection \<open>The controller and its page\<close>

record story =
  story_id :: jsval
  story_title :: jsval

record message =
  msg_text :: string
  msg_sender :: string
  msg_timestamp :: nat

text \<open>
  The children of \<^verbatim>\<open>#chat-messages\<close>. \<^verbatim>\<open>addMessage\<close> builds a div with a class
  attribute, an avatar, a name and a text; \<^verbatim>\<open>addSystemMessage\<close> builds a div of class
  \<^verbatim>\<open>system-message\<close>. The elements inside a message div carry the fixed classes
  \<^verbatim>\<open>avatar\<close>, \<^verbatim>\<open>content\<close>, \<^verbatim>\<open>name\<close>, \<^verbatim>\<open>text\<close> and \<^verbatim>\<open>fas fa-robot\<close> or \<^verbatim>\<open>fas fa-user\<close>.
\<close>

datatype node =
    MessageDiv (class_name: string) (avatar: string) (sender_name: string) (body_text: string)
  | SystemDiv string

record story_item =
  item_id :: jsval
  item_title :: jsval

record button =
  disabled :: bool
  label :: string

datatype timer = ReloadMessages

record app =
  currentStory :: "story option"
  messages :: "message list"
  chat_messages :: "node list option"
  message_input :: "string option"
  send_btn :: "button option"
  stories_list :: "story_item list option"
  characters_list :: "string list option"
  locations_list :: "string list option"
  rules_list :: "string option"
  expansion_modal :: "string option"
  expansion_text :: "string option"
  expansion_page :: "string option"
  notifications :: "string list"
  requests :: "request list"
  timers :: "timer list"
  now :: nat

text \<open>
  \<open>messages\<close> is \<^verbatim>\<open>this.messages\<close>; \<open>notifications\<close> are the \<^verbatim>\<open>error-notification\<close>
  elements \<^verbatim>\<open>showError\<close> has appended to the body; \<open>requests\<close> is the log of the
  requests issued; \<open>timers\<close> are the reloads \<^verbatim>\<open>setTimeout\<close> holds; \<open>now\<close> is what
  \<^verbatim>\<open>new Date()\<close> reads. A notification removes itself three seconds after it is
  shown; the list keeps every notification shown, so that they can be counted.
\<close>

definition showError :: "app \<Rightarrow> string \<Rightarrow> app" where
  "showError s m = s\<lparr>notifications := notifications s @ [m]\<rparr>"

definition showLoading :: "app \<Rightarrow> app" where
  "showLoading s =
     (case send_btn s of
        None \<Rightarrow> s
      | Some b \<Rightarrow> s\<lparr>send_btn := Some (b\<lparr>disabled := True,
            label := ''<i class=\"fas fa-spinner fa-spin\"></i> Sending...''\<rparr>)\<rparr>)"

definition hideLoading :: "app \<Rightarrow> app" where
  "hideLoading s =
     (case send_btn s of
        None \<Rightarrow> s
      | Some b \<Rightarrow> s\<lparr>send_btn := Some (b\<lparr>disabled := False,
            label := ''<i class=\"fas fa-paper-plane\"></i> Send''\<rparr>)\<rparr>)"

definition render_message :: "string \<Rightarrow> string \<Rightarrow> node" where
  "render_message txt sender =
     MessageDiv (''message '' @ sender)
       (if sender = ''bot'' then ''<i class=\"fas fa-robot\"></i>''
        else ''<i class=\"fas fa-user\"></i>'')
       (if sender = ''bot'' then ''StoryBot'' else ''You'')
       txt"

definition addMessage :: "app \<Rightarrow> string \<Rightarrow> string \<Rightarrow> app" where
  "addMessage s txt sender =
     (case chat_messages s of
        None \<Rightarrow> s
      | Some kids \<Rightarrow>
          s\<lparr>chat_messages := Some (kids @ [render_message txt sender]),
            messages := messages s @
              [\<lparr>msg_text = txt, msg_sender = sender, msg_timestamp = now s\<rparr>]\<rparr>)"

definition welcome_text :: string where
  "welcome_text =
     ''Hello! I'' @ [CHR 0x27] @ ''m here to help you explore and expand children''
       @ [CHR 0x27] @ ''s stories. Please select a story to begin.''"

definition addWelcomeMessage :: "app \<Rightarrow> app" where
  "addWelcomeMessage s = addMessage s welcome_text ''bot''"

definition addSystemMessage :: "app \<Rightarrow> string \<Rightarrow> app" where
  "addSystemMessage s txt =
     (case chat_messages s of
        None \<Rightarrow> s
      | Some kids \<Rightarrow> s\<lparr>chat_messages := Some (kids @ [SystemDiv txt])\<rparr>)"

definition clearChat :: "app \<Rightarrow> app" where
  "clearChat s =
     (case chat_messages s of
        None \<Rightarrow> s
      | Some kids \<Rightarrow> addWelcomeMessage (s\<lparr>chat_messages := Some [], messages := []\<rparr>))"

subsection \<open>Sending a message\<close>

text \<open>
  \<^verbatim>\<open>sendMessage\<close> reads \<^verbatim>\<open>messageInput.value\<close> with no guard: on a page without the input
  the read throws before anything is changed, which is \<open>Inl TypeError\<close>. The argument
  \<open>post\<close> is what the network answers to the POST, if one is issued.
\<close>

definition sendMessage :: "app \<Rightarrow> jsval fetch \<Rightarrow> error + app" where
  "sendMessage s post =
     (case message_input s of
        None \<Rightarrow> Inl TypeError
      | Some v \<Rightarrow>
          let message = trim v in
          if message = [] then Inr s
          else
            (case currentStory s of
               None \<Rightarrow> Inr (showError s ''Please select a story first.'')
             | Some st \<Rightarrow>
                 let s1 = addMessage s message ''user'';
                     s2 = s1\<lparr>message_input := Some []\<rparr>;
                     s3 = showLoading s2;
                     s4 = s3\<lparr>requests := requests s3 @ [PostMessage (story_id st) message]\<rparr>;
                     s5 =
                       (case post of
                          Rejected e \<Rightarrow>
                            showError s4 ''Failed to send message. Please check your connection.''
                        | Settled r \<Rightarrow>
                            (case json_body r of
                               Inl e \<Rightarrow>
                                 showError s4
                                   ''Failed to send message. Please check your connection.''
                             | Inr d \<Rightarrow>
                                 if ok r then s4\<lparr>timers := timers s4 @ [ReloadMessages]\<rparr>
                                 else showError s4 ''Failed to send message. Please try again.''))
                 in Inr (hideLoading s5)))"

subsection \<open>Reloading the transcript\<close>

text \<open>
  The message endpoint answers with a sequence of \<^verbatim>\<open>{content, sender}\<close>, both strings.
  A body that parses to something without \<^verbatim>\<open>forEach\<close> is \<open>NotAnArray\<close>; the call then
  throws inside the \<^verbatim>\<open>try\<close>, after the transcript has been cleared.
\<close>

record server_msg =
  content :: string
  sender :: string

datatype messages_json = NotAnArray | MsgArray "server_msg list"

text \<open>
  \<^verbatim>\<open>querySelector('.message.bot')\<close> returns the first element below the container, in
  document order, whose class tokens hold \<^verbatim>\<open>message\<close> and \<^verbatim>\<open>bot\<close>. No element inside a
  message div and no system notice has both tokens, so it is the first such child.
\<close>

fun node_classes :: "node \<Rightarrow> string list" where
  "node_classes (MessageDiv cls av nm txt) = class_tokens cls"
| "node_classes (SystemDiv txt) = class_tokens ''system-message''"

definition matches_message_bot :: "node \<Rightarrow> bool" where
  "matches_message_bot n =
     (''message'' \<in> set (node_classes n) \<and> ''bot'' \<in> set (node_classes n))"

definition loadMessages :: "app \<Rightarrow> messages_json fetch \<Rightarrow> app" where
  "loadMessages s get =
     (case currentStory s of
        None \<Rightarrow> s
      | Some st \<Rightarrow>
          let s1 = s\<lparr>requests := requests s @ [GetMessages (story_id st)]\<rparr> in
          (case get of
             Rejected e \<Rightarrow> s1
           | Settled r \<Rightarrow>
               (case json_body r of
                  Inl e \<Rightarrow> s1
                | Inr msgs \<Rightarrow>
                    (case chat_messages s1 of
                       None \<Rightarrow> s1
                     | Some kids \<Rightarrow>
                         let welcomeMsg = find matches_message_bot kids;
                             s2 = s1\<lparr>chat_messages :=
                                    Some (case welcomeMsg of None \<Rightarrow> [] | Some w \<Rightarrow> [w])\<rparr>
                         in (case msgs of
                               NotAnArray \<Rightarrow> s2
                             | MsgArray ms \<Rightarrow>
                                 foldl (\<lambda>acc m. addMessage acc (content m) (sender m)) s2 ms)))))"

text \<open>
  A send cycle: \<^verbatim>\<open>sendMessage\<close>, and when it has scheduled the reload, the timer fires
  and \<^verbatim>\<open>loadMessages\<close> runs.
\<close>

definition send_then_resync ::
  "app \<Rightarrow> jsval fetch \<Rightarrow> messages_json fetch \<Rightarrow> error + app" where
  "send_then_resync s post get =
     (case sendMessage s post of
        Inl e \<Rightarrow> Inl e
      | Inr s1 \<Rightarrow>
          if ReloadMessages \<in> set (timers s1)
          then Inr (loadMessages (s1\<lparr>timers := remove1 ReloadMessages (timers s1)\<rparr>) get)
          else Inr s1)"

text \<open>
  The message entries of the transcript and of the in-memory list, as pairs of class
  attribute and text: system notices are on the page only.
\<close>

fun transcript_entries :: "node list \<Rightarrow> (string \<times> string) list" where
  "transcript_entries [] = []"
| "transcript_entries (MessageDiv cls av nm txt # ns) = (cls, txt) # transcript_entries ns"
| "transcript_entries (SystemDiv txt # ns) = transcript_entries ns"

definition memory_entries :: "message list \<Rightarrow> (string \<times> string) list" where
  "memory_entries ms = map (\<lambda>m. (''message '' @ msg_sender m, msg_text m)) ms"

subsection \<open>The story catalogue\<close>

text \<open>
  \<^verbatim>\<open>populateStoriesList\<close> empties the list and appends one item per entry; an item keeps
  the values assigned to \<^verbatim>\<open>dataset.id\<close> and to the text of its span. Reading \<^verbatim>\<open>story.id\<close>
  throws on a \<^verbatim>\<open>null\<close> entry, after the items before it have been appended, and
  \<^verbatim>\<open>stories.forEach\<close> throws when \<^verbatim>\<open>stories\<close> is not an array, after the list has been
  emptied. The result is the error thrown, if any, and the page as it is then.
\<close>

fun forEach_story :: "story_item list \<Rightarrow> jsval list \<Rightarrow> error option \<times> story_item list" where
  "forEach_story items [] = (None, items)"
| "forEach_story items (x # xs) =
     (case get_prop x ''id'' of
        Inl e \<Rightarrow> (Some e, items)
      | Inr i \<Rightarrow>
          (case get_prop x ''title'' of
             Inl e \<Rightarrow> (Some e, items)
           | Inr t \<Rightarrow> forEach_story (items @ [\<lparr>item_id = i, item_title = t\<rparr>]) xs))"

definition populateStoriesList :: "app \<Rightarrow> jsval \<Rightarrow> error option \<times> app" where
  "populateStoriesList s stories =
     (case stories_list s of
        None \<Rightarrow> (None, s)
      | Some old \<Rightarrow>
          (case stories of
             JArr xs \<Rightarrow>
               (case forEach_story [] xs of
                  (err, items) \<Rightarrow> (err, s\<lparr>stories_list := Some items\<rparr>))
           | _ \<Rightarrow> (Some TypeError, s\<lparr>stories_list := Some []\<rparr>)))"

definition loadStories :: "app \<Rightarrow> jsval fetch \<Rightarrow> app" where
  "loadStories s resp =
     (let s1 = s\<lparr>requests := requests s @ [GetStories]\<rparr> in
      case resp of
        Rejected e \<Rightarrow> showError s1 ''Failed to load stories. Please try again.''
      | Settled r \<Rightarrow>
          (case json_body r of
             Inl e \<Rightarrow> showError s1 ''Failed to load stories. Please try again.''
           | Inr d \<Rightarrow>
               if \<not> truthy d
               then showError s1 ''Failed to load stories. Please try again.''
               else
                 (case get_prop d ''stories'' of
                    Inl e \<Rightarrow> showError s1 ''Failed to load stories. Please try again.''
                  | Inr v \<Rightarrow>
                      if truthy v
                      then
                        (case populateStoriesList s1 v of
                           (None, s2) \<Rightarrow> s2
                         | (Some e, s2) \<Rightarrow>
                             showError s2 ''Failed to load stories. Please try again.'')
                      else showError s1 ''Failed to load stories. Please try again.'')))"

subsection \<open>The story logic panel\<close>

text \<open>
  The story endpoint answers with \<^verbatim>\<open>{success, data: {elements: [{type, name,
  description}]}}\<close>, the three fields strings. \<open>payload = None\<close> is a response without
  \<^verbatim>\<open>data\<close>; \<open>elements = None\<close> is a \<^verbatim>\<open>data\<close> whose \<^verbatim>\<open>elements\<close> is absent or falsy.
\<close>

record element =
  el_type :: string
  el_name :: string
  el_description :: string

record story_data =
  elements :: "element list option"

record logic_json =
  success :: bool
  payload :: "story_data option"

definition show_rules :: "app \<Rightarrow> app" where
  "show_rules s =
     (case rules_list s of
        None \<Rightarrow> s
      | Some old \<Rightarrow>
          s\<lparr>rules_list := Some ''<li>Story consistency rules will be shown here</li>''\<rparr>)"

text \<open>
  \<^verbatim>\<open>updateStoryLogicPanel\<close> tests \<^verbatim>\<open>charactersList && storyData.elements\<close> and then
  \<^verbatim>\<open>locationsList && storyData.elements\<close>: without \<^verbatim>\<open>data\<close> the read of \<^verbatim>\<open>elements\<close>
  throws at the first list that exists, before anything is written; when neither list
  exists nothing is read. The result is the error thrown, if any, and the page as it
  is then. \<^verbatim>\<open>loadStoryLogic\<close> catches the error and logs it.
\<close>

definition updateStoryLogicPanel :: "app \<Rightarrow> story_data option \<Rightarrow> error option \<times> app" where
  "updateStoryLogicPanel s storyData =
     (case storyData of
        None \<Rightarrow>
          if characters_list s = None \<and> locations_list s = None
          then (None, show_rules s)
          else (Some TypeError, s)
      | Some sd \<Rightarrow>
          let s1 =
                (case (characters_list s, elements sd) of
                   (Some old, Some es) \<Rightarrow>
                     s\<lparr>characters_list :=
                         Some (map (\<lambda>el. el_name el @ '' ('' @ el_description el @ '')'')
                                 (filter (\<lambda>el. el_type el = ''character'') es))\<rparr>
                 | _ \<Rightarrow> s);
              s2 =
                (case (locations_list s1, elements sd) of
                   (Some old, Some es) \<Rightarrow>
                     s1\<lparr>locations_list :=
                          Some (map el_name (filter (\<lambda>el. el_type el = ''location'') es))\<rparr>
                 | _ \<Rightarrow> s1)
          in (None, show_rules s2))"

definition loadStoryLogic :: "app \<Rightarrow> jsval \<Rightarrow> logic_json fetch \<Rightarrow> app" where
  "loadStoryLogic s storyId resp =
     (let s1 = s\<lparr>requests := requests s @ [GetStory storyId]\<rparr> in
      case resp of
        Rejected e \<Rightarrow> s1
      | Settled r \<Rightarrow>
          (case json_body r of
             Inl e \<Rightarrow> s1
           | Inr d \<Rightarrow>
               if success d then snd (updateStoryLogicPanel s1 (payload d)) else s1))"

subsection \<open>Proposing an expansion\<close>

text \<open>
  \<^verbatim>\<open>submitExpansion\<close> reads the text and the page number with no guard, before its
  \<^verbatim>\<open>try\<close>: a missing field is \<open>Inl TypeError\<close>. The request keeps the text handed to
  \<^verbatim>\<open>parseInt\<close>. The body of the request reads \<^verbatim>\<open>this.currentStory.id\<close> inside the
  \<^verbatim>\<open>try\<close>, before \<^verbatim>\<open>fetch\<close> is called.
\<close>

definition closeExpansionModal :: "app \<Rightarrow> app" where
  "closeExpansionModal s =
     (case expansion_modal s of
        None \<Rightarrow> s
      | Some d \<Rightarrow> s\<lparr>expansion_modal := Some ''none''\<rparr>)"

text \<open>
  \<^verbatim>\<open>openExpansionModal\<close> writes the page field with no guard, after it has shown the
  modal: the result is the error thrown, if any, and the page as it is then.
\<close>

definition openExpansionModal :: "app \<Rightarrow> error option \<times> app" where
  "openExpansionModal s =
     (case currentStory s of
        None \<Rightarrow> (None, showError s ''Please select a story first.'')
      | Some st \<Rightarrow>
          (case expansion_modal s of
             None \<Rightarrow> (None, s)
           | Some d \<Rightarrow>
               let s1 = s\<lparr>expansion_modal := Some ''block''\<rparr> in
               (case expansion_page s1 of
                  None \<Rightarrow> (Some TypeError, s1)
                | Some p \<Rightarrow> (None, s1\<lparr>expansion_page := Some ''1''\<rparr>))))"

definition submitExpansion :: "app \<Rightarrow> jsval fetch \<Rightarrow> error + app" where
  "submitExpansion s resp =
     (case expansion_text s of
        None \<Rightarrow> Inl TypeError
      | Some v \<Rightarrow>
          (case expansion_page s of
             None \<Rightarrow> Inl TypeError
           | Some pageNumber \<Rightarrow>
               let expansionText = trim v in
               if expansionText = []
               then Inr (showError s ''Please enter your expansion idea.'')
               else
                 (case currentStory s of
                    None \<Rightarrow>
                      Inr (showError s
                        ''Failed to submit expansion. Please check your connection.'')
                  | Some st \<Rightarrow>
                      let s1 = s\<lparr>requests := requests s @
                                 [ProposeExpansion (story_id st) expansionText pageNumber]\<rparr>
                      in (case resp of
                            Rejected e \<Rightarrow>
                              Inr (showError s1
                                ''Failed to submit expansion. Please check your connection.'')
                          | Settled r \<Rightarrow>
                              (case json_body r of
                                 Inl e \<Rightarrow>
                                   Inr (showError s1
                                     ''Failed to submit expansion. Please check your connection.'')
                               | Inr d \<Rightarrow>
                                   (case get_prop d ''success'' of
                                      Inl e \<Rightarrow>
                                        Inr (showError s1
                                          ''Failed to submit expansion. Please check your connection.'')
                                    | Inr ok_flag \<Rightarrow>
                                        if truthy ok_flag
                                        then
                                          let s2 = addMessage s1
                                                ''Expansion proposal submitted successfully!'' ''bot'';
                                              s3 = closeExpansionModal s2
                                          in Inr (s3\<lparr>expansion_text := Some []\<rparr>)
                                        else
                                          Inr (showError s1
                                            ''Failed to submit expansion. Please try again.'')))))))"

section \<open>The PDF upload dialog\<close>

text \<open>
  The dialog's handlers close over eleven elements looked up once; each use is guarded.
  A handler is registered only when its button exists, so on a page without the button
  a click does nothing.
\<close>

record status_line =
  status_text :: string
  status_color :: string

record upload =
  pdfUploadModal :: "string option"
  pdfFileInput :: "string option option"
  selectedFileName :: "string option"
  confirmUploadBtn :: "bool option"
  cancelUploadBtn :: "bool option"
  uploadProgress :: "string option"
  progressBar :: "string option"
  uploadStatus :: "status_line option"
  upload_requests :: "request list"
  reload_scheduled :: bool

text \<open>
  \<open>pdfUploadModal\<close> and \<open>uploadProgress\<close> hold \<^verbatim>\<open>style.display\<close>, \<open>progressBar\<close> holds
  \<^verbatim>\<open>style.width\<close>, the buttons hold \<^verbatim>\<open>disabled\<close>, \<open>pdfFileInput\<close> holds the name of the
  selected file, if one is selected.
\<close>

definition openUploadModal :: "upload \<Rightarrow> upload" where
  "openUploadModal u =
     (case pdfUploadModal u of
        None \<Rightarrow> u
      | Some d \<Rightarrow> u\<lparr>pdfUploadModal := Some ''block''\<rparr>)"

definition closeUploadModal :: "upload \<Rightarrow> upload" where
  "closeUploadModal u =
     (case pdfUploadModal u of
        None \<Rightarrow> u
      | Some d \<Rightarrow> u\<lparr>pdfUploadModal := Some ''none''\<rparr>)"

definition fileChanged :: "upload \<Rightarrow> string option \<Rightarrow> upload" where
  "fileChanged u file =
     (case pdfFileInput u of
        None \<Rightarrow> u
      | Some old \<Rightarrow>
          let u1 = u\<lparr>pdfFileInput := Some file\<rparr> in
          (case file of
             Some nm \<Rightarrow>
               let u2 = (case selectedFileName u1 of None \<Rightarrow> u1
                         | Some t \<Rightarrow> u1\<lparr>selectedFileName := Some nm\<rparr>)
               in (case confirmUploadBtn u2 of None \<Rightarrow> u2
                   | Some b \<Rightarrow> u2\<lparr>confirmUploadBtn := Some False\<rparr>)
           | None \<Rightarrow>
               let u2 = (case selectedFileName u1 of None \<Rightarrow> u1
                         | Some t \<Rightarrow> u1\<lparr>selectedFileName := Some ''No file selected''\<rparr>)
               in (case confirmUploadBtn u2 of None \<Rightarrow> u2
                   | Some b \<Rightarrow> u2\<lparr>confirmUploadBtn := Some True\<rparr>)))"

definition upload_failed :: "upload \<Rightarrow> string \<Rightarrow> upload" where
  "upload_failed u m =
     (case uploadStatus u of
        None \<Rightarrow> u
      | Some st \<Rightarrow>
          u\<lparr>uploadStatus := Some (st\<lparr>status_text := ''Error: '' @ m, status_color := ''red''\<rparr>)\<rparr>)"

definition upload_succeeded :: "upload \<Rightarrow> upload" where
  "upload_succeeded u =
     (let u1 = (case progressBar u of None \<Rightarrow> u | Some w \<Rightarrow> u\<lparr>progressBar := Some ''100%''\<rparr>);
          u2 = (case uploadStatus u1 of None \<Rightarrow> u1
                | Some st \<Rightarrow>
                    u1\<lparr>uploadStatus :=
                         Some (st\<lparr>status_text := ''Upload successful! Loading story...''\<rparr>)\<rparr>)
      in u2\<lparr>reload_scheduled := True\<rparr>)"

definition upload_finally :: "upload \<Rightarrow> upload" where
  "upload_finally u =
     (let u1 = (case confirmUploadBtn u of None \<Rightarrow> u
                | Some b \<Rightarrow> u\<lparr>confirmUploadBtn := Some False\<rparr>)
      in (case cancelUploadBtn u1 of None \<Rightarrow> u1
          | Some b \<Rightarrow> u1\<lparr>cancelUploadBtn := Some False\<rparr>))"

definition confirmUpload :: "upload \<Rightarrow> jsval fetch \<Rightarrow> upload" where
  "confirmUpload u resp =
     (case confirmUploadBtn u of
        None \<Rightarrow> u
      | Some b0 \<Rightarrow>
          (case pdfFileInput u of
             None \<Rightarrow> u
           | Some None \<Rightarrow> u
           | Some (Some file) \<Rightarrow>
               let u1 = (case uploadProgress u of None \<Rightarrow> u
                         | Some d \<Rightarrow> u\<lparr>uploadProgress := Some ''block''\<rparr>);
                   u2 = (case confirmUploadBtn u1 of None \<Rightarrow> u1
                         | Some b \<Rightarrow> u1\<lparr>confirmUploadBtn := Some True\<rparr>);
                   u3 = (case cancelUploadBtn u2 of None \<Rightarrow> u2
                         | Some b \<Rightarrow> u2\<lparr>cancelUploadBtn := Some True\<rparr>);
                   u4 = u3\<lparr>upload_requests := upload_requests u3 @ [UploadPdf file]\<rparr>;
                   u5 =
                     (case resp of
                        Rejected m \<Rightarrow> upload_failed u4 m
                      | Settled r \<Rightarrow>
                          if \<not> ok r then upload_failed u4 (''Upload failed: '' @ statusText r)
                          else
                            (case json_body r of
                               Inl m \<Rightarrow> upload_failed u4 m
                             | Inr d \<Rightarrow> upload_succeeded u4))
               in upload_finally u5))"

definition cancelUpload :: "upload \<Rightarrow> upload" where
  "cancelUpload u =
     (case cancelUploadBtn u of
        None \<Rightarrow> u
      | Some c0 \<Rightarrow>
          let u1 = (case pdfFileInput u of None \<Rightarrow> u
                    | Some f \<Rightarrow> u\<lparr>pdfFileInput := Some None\<rparr>);
              u2 = (case selectedFileName u1 of None \<Rightarrow> u1
                    | Some t \<Rightarrow> u1\<lparr>selectedFileName := Some ''No file selected''\<rparr>);
              u3 = (case uploadProgress u2 of None \<Rightarrow> u2
                    | Some d \<Rightarrow> u2\<lparr>uploadProgress := Some ''none''\<rparr>);
              u4 = (case progressBar u3 of None \<Rightarrow> u3
                    | Some w \<Rightarrow> u3\<lparr>progressBar := Some ''0%''\<rparr>);
              u5 = (case uploadStatus u4 of None \<Rightarrow> u4
                    | Some st \<Rightarrow>
                        u4\<lparr>uploadStatus :=
                             Some (st\<lparr>status_text := ''Uploading...'', status_color := []\<rparr>)\<rparr>);
              u6 = (case confirmUploadBtn u5 of None \<Rightarrow> u5
                    | Some b \<Rightarrow> u5\<lparr>confirmUploadBtn := Some True\<rparr>)
          in (case pdfUploadModal u6 of
                None \<Rightarrow> u6
              | Some d \<Rightarrow> u6\<lparr>pdfUploadModal := Some ''none''\<rparr>))"

section \<open>Concrete pages\<close>

text \<open>
  A page with every element present and nothing in it, the same page once the
  controller has greeted, and a dialog in which a file has been chosen.
\<close>

definition blank_page :: app where
  "blank_page =
     \<lparr>currentStory = None, messages = [], chat_messages = Some [],
      message_input = Some [], send_btn = Some \<lparr>disabled = False, label = ''Send''\<rparr>,
      stories_list = Some [], characters_list = Some [], locations_list = Some [],
      rules_list = Some [], expansion_modal = Some ''none'', expansion_text = Some [],
      expansion_page = Some ''1'', notifications = [], requests = [], timers = [],
      now = 0\<rparr>"

definition greeted_page :: app where
  "greeted_page = addWelcomeMessage blank_page"

definition fox_story :: story where
  "fox_story = \<lparr>story_id = JStr ''s1'', story_title = JStr ''The Fox''\<rparr>"

definition ok_response :: "'b \<Rightarrow> 'b fetch" where
  "ok_response b = Settled \<lparr>status = 200, statusText = ''OK'', json_body = Inr b\<rparr>"

definition chosen_dialog :: upload where
  "chosen_dialog =
     \<lparr>pdfUploadModal = Some ''block'', pdfFileInput = Some (Some ''story.pdf''),
      selectedFileName = Some ''story.pdf'', confirmUploadBtn = Some False,
      cancelUploadBtn = Some False, uploadProgress = Some ''none'',
      progressBar = Some ''0%'',
      uploadStatus = Some \<lparr>status_text = ''Uploading...'', status_color = []\<rparr>,
      upload_requests = [], reload_scheduled = False\<rparr>"

definition fox_page :: app where
  "fox_page = greeted_page\<lparr>currentStory := Some fox_story, message_input := Some ''hi''\<rparr>"

definition fox_reply :: "server_msg list" where
  "fox_reply = [\<lparr>content = ''hi'', sender = ''user''\<rparr>,
                \<lparr>content = ''Once upon a time'', sender = ''bot''\<rparr>]"

definition fox_item :: story_item where
  "fox_item = \<lparr>item_id = JStr ''s1'', item_title = JStr ''The Fox''\<rparr>"

definition fox_elements :: "element list" where
  "fox_elements =
     [\<lparr>el_type = ''character'', el_name = ''Fox'', el_description = ''sly''\<rparr>,
      \<lparr>el_type = ''rule'', el_name = ''No magic'', el_description = ''none''\<rparr>,
      \<lparr>el_type = ''location'', el_name = ''Forest'', el_description = ''dark''\<rparr>,
      \<lparr>el_type = ''character'', el_name = ''Crow'', el_description = ''vain''\<rparr>]"

definition dragon_page :: app where
  "dragon_page = greeted_page\<lparr>expansion_text := Some ''add a dragon'',
                   expansion_page := Some ''3'', expansion_modal := Some ''block''\<rparr>"

definition server_error :: "jsval response" where
  "server_error =
     \<lparr>status = 500, statusText = ''Internal Server Error'',
      json_body = Inl ''Unexpected token''\<rparr>"

definition failed_dialog :: upload where
  "failed_dialog = confirmUpload chosen_dialog (Settled server_error)"

section \<open>What the views are compared with\<close>

text \<open>
  The two sides of the mirror between page and memory: the message entries of the
  transcript (nothing when there is no transcript) and those of \<^verbatim>\<open>this.messages\<close>.
\<close>

definition mirror_view :: "app \<Rightarrow> (string \<times> string) list \<times> (string \<times> string) list" where
  "mirror_view s =
     ((case chat_messages s of None \<Rightarrow> [] | Some kids \<Rightarrow> transcript_entries kids),
      memory_entries (messages s))"

text \<open>The item \<^verbatim>\<open>populateStoriesList\<close> builds from an entry that is an object.\<close>

definition entry_item :: "(string \<times> jsval) list \<Rightarrow> story_item" where
  "entry_item kvs =
     \<lparr>item_id = (case map_of (rev kvs) ''id'' of None \<Rightarrow> JUndefined | Some v \<Rightarrow> v),
      item_title = (case map_of (rev kvs) ''title'' of None \<Rightarrow> JUndefined | Some v \<Rightarrow> v)\<rparr>"

section \<open>Sending with nothing to send, or with no story\<close>

text \<open>
  Claim C4. When the input holds the empty string, or a string that is empty once
  trimmed (such as three spaces), \<^verbatim>\<open>sendMessage\<close> returns the state it was given: the
  transcript, the request log and the notifications are what they were.
\<close>

theorem sendMessage_blank_noop:
  "(message_input s = Some x \<and> trim x = [] \<longrightarrow> sendMessage s post = Inr s)
   \<and> trim [] = [] \<and> trim ''   '' = []"
  by (simp add: sendMessage_def trim_def js_whitespace_def)

theorem sendMessage_blank_noop_witness:
  "message_input (blank_page\<lparr>message_input := Some ''   ''\<rparr>) = Some ''   ''
   \<and> trim ''   '' = []
   \<and> sendMessage (blank_page\<lparr>message_input := Some ''   ''\<rparr>) (Rejected []) =
       Inr (blank_page\<lparr>message_input := Some ''   ''\<rparr>)"
  using sendMessage_blank_noop
    [of "blank_page\<lparr>message_input := Some ''   ''\<rparr>" "''   ''" "Rejected []"]
  by (simp add: blank_page_def)

text \<open>
  Claim C3, as amended. With no story selected and an input that is not empty once
  trimmed, \<^verbatim>\<open>sendMessage\<close> adds exactly one error notification and changes neither the
  transcript, nor the in-memory list, nor the request log.
\<close>

theorem sendMessage_no_story:
  assumes "message_input s = Some x" and "trim x \<noteq> []" and "currentStory s = None"
  shows "\<exists>s'. sendMessage s post = Inr s'
           \<and> notifications s' = notifications s @ [''Please select a story first.'']
           \<and> chat_messages s' = chat_messages s
           \<and> messages s' = messages s
           \<and> requests s' = requests s"
  using assms by (simp add: sendMessage_def showError_def)

theorem sendMessage_no_story_witness:
  "message_input (blank_page\<lparr>message_input := Some '' hi ''\<rparr>) = Some '' hi ''
   \<and> trim '' hi '' \<noteq> []
   \<and> currentStory (blank_page\<lparr>message_input := Some '' hi ''\<rparr>) = None
   \<and> (\<exists>s'. sendMessage (blank_page\<lparr>message_input := Some '' hi ''\<rparr>) (Rejected []) = Inr s'
           \<and> notifications s' = [''Please select a story first.'']
           \<and> chat_messages s' = Some []
           \<and> messages s' = []
           \<and> requests s' = [])"
proof -
  have a: "message_input (blank_page\<lparr>message_input := Some '' hi ''\<rparr>) = Some '' hi ''"
    by simp
  have b: "trim '' hi '' \<noteq> []"
    by (simp add: trim_def js_whitespace_def)
  have c: "currentStory (blank_page\<lparr>message_input := Some '' hi ''\<rparr>) = None"
    by (simp add: blank_page_def)
  show ?thesis
    using sendMessage_no_story [OF a b c, of "Rejected []"] a b c
    by (simp add: blank_page_def)
qed

text \<open>
  Claim C3 as stated fails for a blank input: with no story selected and three spaces
  in the input, the emptiness test returns first, and the state that comes back is the
  state that went in, whose notifications are still none.
\<close>

theorem sendMessage_no_story_blank_counterexample:
  "currentStory (blank_page\<lparr>message_input := Some ''   ''\<rparr>) = None
   \<and> notifications (blank_page\<lparr>message_input := Some ''   ''\<rparr>) = []
   \<and> sendMessage (blank_page\<lparr>message_input := Some ''   ''\<rparr>) (Rejected []) =
       Inr (blank_page\<lparr>message_input := Some ''   ''\<rparr>)"
  by (simp add: blank_page_def sendMessage_def trim_def js_whitespace_def)

section \<open>Clearing the chat\<close>

text \<open>
  Claim C7. On a page that has the transcript, \<^verbatim>\<open>clearChat\<close> leaves in it exactly one
  message, of class \<^verbatim>\<open>message bot\<close> and with the welcome text, and leaves in
  \<^verbatim>\<open>this.messages\<close> exactly that message.
\<close>

theorem clearChat_welcome_only:
  assumes "chat_messages s = Some kids"
  shows "chat_messages (clearChat s) =
           Some [MessageDiv ''message bot'' ''<i class=\"fas fa-robot\"></i>'' ''StoryBot''
                   welcome_text]
         \<and> messages (clearChat s) =
             [\<lparr>msg_text = welcome_text, msg_sender = ''bot'', msg_timestamp = now s\<rparr>]"
  using assms
  by (simp add: clearChat_def addWelcomeMessage_def addMessage_def render_message_def)

theorem clearChat_welcome_only_witness:
  "chat_messages (addSystemMessage (addMessage greeted_page ''hi'' ''user'') ''Selected'') =
     Some [render_message welcome_text ''bot'', render_message ''hi'' ''user'',
           SystemDiv ''Selected'']
   \<and> chat_messages
       (clearChat (addSystemMessage (addMessage greeted_page ''hi'' ''user'') ''Selected'')) =
       Some [render_message welcome_text ''bot'']
   \<and> messages
       (clearChat (addSystemMessage (addMessage greeted_page ''hi'' ''user'') ''Selected'')) =
       [\<lparr>msg_text = welcome_text, msg_sender = ''bot'', msg_timestamp = 0\<rparr>]"
proof -
  have a: "chat_messages
      (addSystemMessage (addMessage greeted_page ''hi'' ''user'') ''Selected'') =
     Some [render_message welcome_text ''bot'', render_message ''hi'' ''user'',
           SystemDiv ''Selected'']"
    by (simp add: addSystemMessage_def addMessage_def greeted_page_def
        addWelcomeMessage_def blank_page_def)
  have n: "now (addSystemMessage (addMessage greeted_page ''hi'' ''user'') ''Selected'') = 0"
    by (simp add: addSystemMessage_def addMessage_def greeted_page_def
        addWelcomeMessage_def blank_page_def)
  show ?thesis
    using clearChat_welcome_only [OF a] a n
    by (simp add: render_message_def)
qed

section \<open>Submitting an expansion with no story\<close>

text \<open>
  Claim C10. On a page that has the expansion fields, with a text that is not empty
  once trimmed and with no story selected, \<^verbatim>\<open>submitExpansion\<close> does not throw: it
  returns the state it was given with one more notification, the connection error.
  No request is logged, and the modal and the text field are what they were.
\<close>

theorem submitExpansion_no_story:
  assumes "expansion_text s = Some t" and "expansion_page s = Some p"
    and "trim t \<noteq> []" and "currentStory s = None"
  shows "submitExpansion s resp =
           Inr (s\<lparr>notifications := notifications s @
                  [''Failed to submit expansion. Please check your connection.'']\<rparr>)"
  using assms by (simp add: submitExpansion_def showError_def)

theorem submitExpansion_no_story_witness:
  "trim ''add a dragon'' \<noteq> [] \<and> currentStory dragon_page = None
   \<and> submitExpansion dragon_page (ok_response (JObj [(''success'', JBool True)])) =
       Inr (dragon_page\<lparr>notifications :=
              [''Failed to submit expansion. Please check your connection.'']\<rparr>)
   \<and> requests dragon_page = [] \<and> expansion_modal dragon_page = Some ''block''"
proof -
  have a: "expansion_text dragon_page = Some ''add a dragon''"
    and b: "expansion_page dragon_page = Some ''3''"
    and d: "currentStory dragon_page = None"
    and e: "notifications dragon_page = []"
    and f: "requests dragon_page = []"
    and g: "expansion_modal dragon_page = Some ''block''"
    by (simp_all add: dragon_page_def greeted_page_def addWelcomeMessage_def addMessage_def
        blank_page_def)
  have c: "trim ''add a dragon'' \<noteq> []"
    by (simp add: trim_def js_whitespace_def)
  show ?thesis
    using submitExpansion_no_story
      [OF a b c d, of "ok_response (JObj [(''success'', JBool True)])"] c d e f g
    by simp
qed

section \<open>The send cycle\<close>

lemma foldl_addMessage_chat:
  "chat_messages s = Some kids \<Longrightarrow>
   chat_messages (foldl (\<lambda>acc m. addMessage acc (content m) (sender m)) s ms) =
     Some (kids @ map (\<lambda>m. render_message (content m) (sender m)) ms)"
proof (induction ms arbitrary: s kids)
  case Nil
  then show ?case by simp
next
  case (Cons m ms)
  have "chat_messages (addMessage s (content m) (sender m)) =
          Some (kids @ [render_message (content m) (sender m)])"
    using Cons.prems by (simp add: addMessage_def)
  from Cons.IH [OF this] show ?case by simp
qed

lemma find_snoc:
  "find P (xs @ [y]) =
     (case find P xs of None \<Rightarrow> (if P y then Some y else None) | Some x \<Rightarrow> Some x)"
  by (induction xs) auto

lemma user_not_bot: "\<not> matches_message_bot (render_message m ''user'')"
  by (simp add: matches_message_bot_def render_message_def class_tokens_def html_space_def)

lemma bot_is_bot: "matches_message_bot (render_message m ''bot'')"
  by (simp add: matches_message_bot_def render_message_def class_tokens_def html_space_def)

lemma system_not_bot: "\<not> matches_message_bot (SystemDiv t)"
  by (simp add: matches_message_bot_def class_tokens_def html_space_def)

lemma trim_hi: "trim ''hi'' = ''hi''"
  by (simp add: trim_def js_whitespace_def)

text \<open>
  Claim C1. Take any page that has the input and the transcript, a story selected and
  an input that is not blank. When the POST settles with an OK status and a JSON body,
  and the GET that follows returns the messages \<open>ms\<close>, the cycle ends with the
  transcript holding the first element of class \<^verbatim>\<open>message bot\<close> that it held before
  the cycle, if there was one, followed by one message per entry of \<open>ms\<close>, in the
  order of \<open>ms\<close>. The message rendered when sending is not kept. Whatever the number of
  welcome messages before the cycle, at most one element is retained.
\<close>

theorem send_then_resync_transcript:
  assumes "message_input s = Some x" and "trim x \<noteq> []"
    and "currentStory s = Some st" and "chat_messages s = Some kids"
    and "ok r" and "json_body r = Inr d" and "json_body g = Inr (MsgArray ms)"
  shows "\<exists>s'. send_then_resync s (Settled r) (Settled g) = Inr s'
           \<and> chat_messages s' =
               Some ((case find matches_message_bot kids of None \<Rightarrow> [] | Some w \<Rightarrow> [w])
                     @ map (\<lambda>m. render_message (content m) (sender m)) ms)"
proof -
  define s1 where
    "s1 = hideLoading
            ((showLoading ((addMessage s (trim x) ''user'')\<lparr>message_input := Some []\<rparr>))
               \<lparr>requests := requests s @ [PostMessage (story_id st) (trim x)],
                 timers := timers s @ [ReloadMessages]\<rparr>)"
  have sent: "sendMessage s (Settled r) = Inr s1"
    using assms
    by (simp add: sendMessage_def s1_def Let_def addMessage_def showLoading_def
        split: option.splits)
  have chat1: "chat_messages s1 = Some (kids @ [render_message (trim x) ''user''])"
    using assms
    by (simp add: s1_def addMessage_def showLoading_def hideLoading_def split: option.splits)
  have story1: "currentStory s1 = Some st"
    using assms
    by (simp add: s1_def addMessage_def showLoading_def hideLoading_def split: option.splits)
  have timer1: "ReloadMessages \<in> set (timers s1)"
    using assms
    by (simp add: s1_def addMessage_def showLoading_def hideLoading_def split: option.splits)
  have kept: "find matches_message_bot (kids @ [render_message (trim x) ''user''])
                = find matches_message_bot kids"
    by (simp add: find_snoc user_not_bot split: option.splits)
  define s2 where "s2 = s1\<lparr>timers := remove1 ReloadMessages (timers s1)\<rparr>"
  define s3 where
    "s3 = s2\<lparr>requests := requests s2 @ [GetMessages (story_id st)],
             chat_messages :=
               Some (case find matches_message_bot kids of None \<Rightarrow> [] | Some w \<Rightarrow> [w])\<rparr>"
  have chat3: "chat_messages s3 =
      Some (case find matches_message_bot kids of None \<Rightarrow> [] | Some w \<Rightarrow> [w])"
    by (simp add: s3_def)
  have loaded: "loadMessages s2 (Settled g) =
      foldl (\<lambda>acc m. addMessage acc (content m) (sender m)) s3 ms"
    using assms chat1 story1 kept
    by (simp add: loadMessages_def s2_def s3_def Let_def)
  have "send_then_resync s (Settled r) (Settled g) = Inr (loadMessages s2 (Settled g))"
    using sent timer1 by (simp add: send_then_resync_def s2_def)
  moreover have "chat_messages (loadMessages s2 (Settled g)) =
      Some ((case find matches_message_bot kids of None \<Rightarrow> [] | Some w \<Rightarrow> [w])
            @ map (\<lambda>m. render_message (content m) (sender m)) ms)"
    unfolding loaded by (rule foldl_addMessage_chat [OF chat3])
  ultimately show ?thesis by simp
qed

theorem send_then_resync_transcript_witness:
  "\<exists>s'. send_then_resync fox_page (ok_response (JObj [])) (ok_response (MsgArray fox_reply))
           = Inr s'
        \<and> chat_messages s' =
            Some [render_message welcome_text ''bot'', render_message ''hi'' ''user'',
                  render_message ''Once upon a time'' ''bot'']"
proof -
  let ?r = "\<lparr>status = 200, statusText = ''OK'', json_body = Inr (JObj [])\<rparr>"
  let ?g = "\<lparr>status = 200, statusText = ''OK'', json_body = Inr (MsgArray fox_reply)\<rparr>"
  have a: "message_input fox_page = Some ''hi''"
    by (simp add: fox_page_def)
  have b: "trim ''hi'' \<noteq> []"
    by (simp add: trim_hi)
  have c: "currentStory fox_page = Some fox_story"
    by (simp add: fox_page_def)
  have d: "chat_messages fox_page = Some [render_message welcome_text ''bot'']"
    by (simp add: fox_page_def greeted_page_def addWelcomeMessage_def addMessage_def
        blank_page_def)
  have e: "ok ?r" by (simp add: ok_def)
  have f: "json_body ?r = Inr (JObj [])" by simp
  have g: "json_body ?g = Inr (MsgArray fox_reply)" by simp
  show ?thesis
    using send_then_resync_transcript [OF a b c d e f g]
    by (simp add: ok_response_def bot_is_bot fox_reply_def)
qed

text \<open>
  Claim C2. The claim asks that \<^verbatim>\<open>this.messages\<close> and the transcript hold the same
  message entries after \<^verbatim>\<open>loadMessages\<close>. On the greeted page with a story selected,
  sending \<^verbatim>\<open>hi\<close> and reloading the two messages the server holds leaves three entries
  in the transcript and four in memory: \<^verbatim>\<open>loadMessages\<close> empties the transcript but
  not \<^verbatim>\<open>this.messages\<close>, so the entry added when sending stays and the reloaded ones
  are pushed after it.
\<close>

theorem resync_memory_diverges:
  "map_sum id mirror_view
     (send_then_resync fox_page (ok_response (JObj [])) (ok_response (MsgArray fox_reply))) =
   Inr ([(''message bot'', welcome_text), (''message user'', ''hi''),
         (''message bot'', ''Once upon a time'')],
        [(''message bot'', welcome_text), (''message user'', ''hi''),
         (''message user'', ''hi''), (''message bot'', ''Once upon a time'')])"
  by (simp add: send_then_resync_def sendMessage_def loadMessages_def fox_page_def
      greeted_page_def blank_page_def addWelcomeMessage_def addMessage_def trim_hi
      ok_response_def ok_def fox_reply_def fox_story_def showLoading_def hideLoading_def
      mirror_view_def memory_entries_def render_message_def matches_message_bot_def
      class_tokens_def html_space_def Let_def)

text \<open>After \<^verbatim>\<open>clearChat\<close>, which resets both sides, the mirror holds.\<close>

lemma clearChat_mirror:
  "chat_messages s = Some kids \<Longrightarrow>
   mirror_view (clearChat s) =
     ([(''message bot'', welcome_text)], [(''message bot'', welcome_text)])"
  by (simp add: mirror_view_def clearChat_def addWelcomeMessage_def addMessage_def
      render_message_def memory_entries_def)

section \<open>Loading the catalogue\<close>

lemma forEach_story_objects:
  "forEach_story items (map JObj es) = (None, items @ map entry_item es)"
  by (induction es arbitrary: items) (simp_all add: entry_item_def)

lemma get_prop_array_truthy: "get_prop d k = Inr (JArr xs) \<Longrightarrow> truthy d"
  by (cases d) (simp_all split: option.splits)

text \<open>
  Where the guard of \<^verbatim>\<open>loadStories\<close> decides as its messages say. When the response
  is an object whose \<^verbatim>\<open>stories\<close> is an array of objects, the list is replaced by one
  item per entry, in order, and no error is shown. When the fetch rejects, when the
  body is not JSON, or when the response or its \<^verbatim>\<open>stories\<close> is falsy, exactly one
  error notification is shown and the list is left as it was.
\<close>

lemma loadStories_shapes:
  "(json_body r = Inr d \<and> get_prop d ''stories'' = Inr (JArr (map JObj es))
      \<and> stories_list s = Some old \<longrightarrow>
        stories_list (loadStories s (Settled r)) = Some (map entry_item es)
        \<and> notifications (loadStories s (Settled r)) = notifications s)
   \<and> ((resp = Rejected m
        \<or> (resp = Settled r
            \<and> (json_body r = Inl m
                \<or> (json_body r = Inr d
                    \<and> (\<not> truthy d \<or> (\<exists>v. get_prop d ''stories'' = Inr v \<and> \<not> truthy v)))))) \<longrightarrow>
        stories_list (loadStories s resp) = stories_list s
        \<and> notifications (loadStories s resp) =
            notifications s @ [''Failed to load stories. Please try again.''])"
proof (intro conjI impI)
  assume a: "json_body r = Inr d \<and> get_prop d ''stories'' = Inr (JArr (map JObj es))
      \<and> stories_list s = Some old"
  then have t: "truthy d" by (blast intro: get_prop_array_truthy)
  from a t show "stories_list (loadStories s (Settled r)) = Some (map entry_item es)"
    by (simp add: loadStories_def populateStoriesList_def forEach_story_objects)
  from a t show "notifications (loadStories s (Settled r)) = notifications s"
    by (simp add: loadStories_def populateStoriesList_def forEach_story_objects)
next
  assume b: "resp = Rejected m
        \<or> (resp = Settled r
            \<and> (json_body r = Inl m
                \<or> (json_body r = Inr d
                    \<and> (\<not> truthy d \<or> (\<exists>v. get_prop d ''stories'' = Inr v \<and> \<not> truthy v)))))"
  then show "stories_list (loadStories s resp) = stories_list s"
    by (auto simp add: loadStories_def showError_def Let_def)
  from b show "notifications (loadStories s resp) =
            notifications s @ [''Failed to load stories. Please try again.'']"
    by (auto simp add: loadStories_def showError_def Let_def)
qed

text \<open>
  Where it does not: a \<^verbatim>\<open>stories\<close> that is truthy and not an array passes the guard,
  \<^verbatim>\<open>populateStoriesList\<close> empties the list, and only then \<^verbatim>\<open>forEach\<close> throws. One
  error notification is shown, and the list is empty whatever it held.
\<close>

lemma loadStories_truthy_nonarray:
  assumes "json_body r = Inr d" and "truthy d" and "get_prop d ''stories'' = Inr v"
    and "truthy v" and "\<And>xs. v \<noteq> JArr xs" and "stories_list s = Some old"
  shows "stories_list (loadStories s (Settled r)) = Some []
         \<and> notifications (loadStories s (Settled r)) =
             notifications s @ [''Failed to load stories. Please try again.'']"
  using assms
  by (cases v) (auto simp add: loadStories_def populateStoriesList_def showError_def)

text \<open>
  Claim C5. The claim asks that a response of any shape other than
  \<^verbatim>\<open>{stories: [...]}\<close> shows one error and leaves the story list unchanged. On a page
  whose list holds one item, the response \<^verbatim>\<open>{stories: "abc"}\<close> shows the one error but
  leaves the list empty, while the response \<^verbatim>\<open>{error: "abc"}\<close>, which the guard turns
  away, shows the same error and leaves the item in place.
\<close>

theorem loadStories_nonarray_wipes_list:
  "stories_list (blank_page\<lparr>stories_list := Some [fox_item]\<rparr>) = Some [fox_item]
   \<and> stories_list
        (loadStories (blank_page\<lparr>stories_list := Some [fox_item]\<rparr>)
           (ok_response (JObj [(''stories'', JStr ''abc'')]))) = Some []
   \<and> notifications
        (loadStories (blank_page\<lparr>stories_list := Some [fox_item]\<rparr>)
           (ok_response (JObj [(''stories'', JStr ''abc'')]))) =
       [''Failed to load stories. Please try again.'']
   \<and> stories_list
        (loadStories (blank_page\<lparr>stories_list := Some [fox_item]\<rparr>)
           (ok_response (JObj [(''error'', JStr ''abc'')]))) = Some [fox_item]
   \<and> notifications
        (loadStories (blank_page\<lparr>stories_list := Some [fox_item]\<rparr>)
           (ok_response (JObj [(''error'', JStr ''abc'')]))) =
       [''Failed to load stories. Please try again.'']"
  by (simp add: loadStories_def populateStoriesList_def ok_response_def blank_page_def
      showError_def)

text \<open>
  An array with a \<^verbatim>\<open>null\<close> entry populates the list up to that entry and then shows
  the error.
\<close>

lemma loadStories_partial:
  "stories_list
     (loadStories blank_page
        (ok_response (JObj [(''stories'',
           JArr [JObj [(''id'', JStr ''s1''), (''title'', JStr ''The Fox'')], JNull])]))) =
     Some [fox_item]
   \<and> notifications
     (loadStories blank_page
        (ok_response (JObj [(''stories'',
           JArr [JObj [(''id'', JStr ''s1''), (''title'', JStr ''The Fox'')], JNull])]))) =
     [''Failed to load stories. Please try again.'']"
  by (simp add: loadStories_def populateStoriesList_def ok_response_def blank_page_def
      fox_item_def showError_def)

section \<open>Projecting the story logic\<close>

lemma length_filter_disjoint:
  "(\<And>x. \<not> (P x \<and> Q x)) \<Longrightarrow>
   length (filter P xs) + length (filter Q xs) = length (filter (\<lambda>x. P x \<or> Q x) xs)"
  by (induction xs) auto

text \<open>
  Claim C6. On a page that has both lists, after a response with \<^verbatim>\<open>success\<close> set and
  the elements \<open>es\<close>, the characters list holds \<^verbatim>\<open>name (description)\<close> for exactly the
  entries of \<open>es\<close> of type \<^verbatim>\<open>character\<close>, in order, and the locations list holds the
  name of exactly the entries of type \<^verbatim>\<open>location\<close>, in order. The two lists together
  have as many lines as \<open>es\<close> has entries of these two types: an entry of another type
  is in neither.
\<close>

theorem loadStoryLogic_views:
  assumes "characters_list s = Some cs" and "locations_list s = Some ls"
    and "json_body r = Inr d" and "success d" and "payload d = Some sd"
    and "elements sd = Some es"
  shows "characters_list (loadStoryLogic s sid (Settled r)) =
           Some (map (\<lambda>el. el_name el @ '' ('' @ el_description el @ '')'')
                   (filter (\<lambda>el. el_type el = ''character'') es))
         \<and> locations_list (loadStoryLogic s sid (Settled r)) =
             Some (map el_name (filter (\<lambda>el. el_type el = ''location'') es))
         \<and> length (the (characters_list (loadStoryLogic s sid (Settled r))))
             + length (the (locations_list (loadStoryLogic s sid (Settled r)))) =
             length (filter (\<lambda>el. el_type el = ''character'' \<or> el_type el = ''location'') es)"
proof -
  have c: "characters_list (loadStoryLogic s sid (Settled r)) =
           Some (map (\<lambda>el. el_name el @ '' ('' @ el_description el @ '')'')
                   (filter (\<lambda>el. el_type el = ''character'') es))"
    using assms
    by (simp add: loadStoryLogic_def updateStoryLogicPanel_def show_rules_def Let_def
        split: option.splits)
  have l: "locations_list (loadStoryLogic s sid (Settled r)) =
             Some (map el_name (filter (\<lambda>el. el_type el = ''location'') es))"
    using assms
    by (simp add: loadStoryLogic_def updateStoryLogicPanel_def show_rules_def Let_def
        split: option.splits)
  have n: "length (filter (\<lambda>el. el_type el = ''character'') es)
         + length (filter (\<lambda>el. el_type el = ''location'') es) =
         length (filter (\<lambda>el. el_type el = ''character'' \<or> el_type el = ''location'') es)"
    by (rule length_filter_disjoint) simp
  from c l n show ?thesis by simp
qed

theorem loadStoryLogic_views_witness:
  "characters_list
     (loadStoryLogic blank_page (JStr ''s1'')
        (ok_response \<lparr>success = True, payload = Some \<lparr>elements = Some fox_elements\<rparr>\<rparr>)) =
     Some [''Fox (sly)'', ''Crow (vain)'']
   \<and> locations_list
     (loadStoryLogic blank_page (JStr ''s1'')
        (ok_response \<lparr>success = True, payload = Some \<lparr>elements = Some fox_elements\<rparr>\<rparr>)) =
     Some [''Forest'']"
proof -
  let ?d = "\<lparr>success = True, payload = Some \<lparr>elements = Some fox_elements\<rparr>\<rparr>"
  let ?r = "\<lparr>status = 200, statusText = ''OK'', json_body = Inr ?d\<rparr>"
  have a: "characters_list blank_page = Some []" and b: "locations_list blank_page = Some []"
    by (simp_all add: blank_page_def)
  have c: "json_body ?r = Inr ?d" and d: "success ?d"
    and e: "payload ?d = Some \<lparr>elements = Some fox_elements\<rparr>"
    and f: "elements \<lparr>elements = Some fox_elements\<rparr> = Some fox_elements"
    by simp_all
  show ?thesis
    using loadStoryLogic_views [OF a b c d e f, of "JStr ''s1''"]
    by (simp add: ok_response_def fox_elements_def)
qed

section \<open>The upload dialog\<close>

text \<open>
  Claim C8. With a file chosen and the buttons and the status line on the page, when
  the POST settles with a status outside 200 to 299, whatever it is, the status line
  reads \<^verbatim>\<open>Error: Upload failed: \<close> followed by the response's status text, in red; the
  confirm and cancel buttons are enabled; the modal's display is what it was.
\<close>

theorem confirmUpload_not_ok:
  assumes "confirmUploadBtn u = Some b" and "cancelUploadBtn u = Some c"
    and "pdfFileInput u = Some (Some f)" and "uploadStatus u = Some st"
    and "\<not> ok r"
  shows "uploadStatus (confirmUpload u (Settled r)) =
           Some (st\<lparr>status_text := ''Error: Upload failed: '' @ statusText r,
                    status_color := ''red''\<rparr>)
         \<and> confirmUploadBtn (confirmUpload u (Settled r)) = Some False
         \<and> cancelUploadBtn (confirmUpload u (Settled r)) = Some False
         \<and> pdfUploadModal (confirmUpload u (Settled r)) = pdfUploadModal u"
proof (cases "uploadProgress u")
  case None
  with assms show ?thesis
    by (simp add: confirmUpload_def upload_failed_def upload_finally_def)
next
  case (Some p)
  with assms show ?thesis
    by (simp add: confirmUpload_def upload_failed_def upload_finally_def)
qed

theorem confirmUpload_not_ok_witness:
  "\<not> ok server_error
   \<and> uploadStatus (confirmUpload chosen_dialog (Settled server_error)) =
       Some \<lparr>status_text = ''Error: Upload failed: Internal Server Error'',
             status_color = ''red''\<rparr>
   \<and> confirmUploadBtn (confirmUpload chosen_dialog (Settled server_error)) = Some False
   \<and> cancelUploadBtn (confirmUpload chosen_dialog (Settled server_error)) = Some False
   \<and> pdfUploadModal (confirmUpload chosen_dialog (Settled server_error)) = Some ''block''"
proof -
  have a: "confirmUploadBtn chosen_dialog = Some False"
    and b: "cancelUploadBtn chosen_dialog = Some False"
    and c: "pdfFileInput chosen_dialog = Some (Some ''story.pdf'')"
    and d: "uploadStatus chosen_dialog =
              Some \<lparr>status_text = ''Uploading...'', status_color = []\<rparr>"
    by (simp_all add: chosen_dialog_def)
  have e: "\<not> ok server_error" by (simp add: ok_def server_error_def)
  show ?thesis
    using confirmUpload_not_ok [OF a b c d e] e
    by (simp add: chosen_dialog_def server_error_def)
qed

lemma set_pdfFileInput:
  "(case pdfFileInput v of None \<Rightarrow> v | Some f \<Rightarrow> v\<lparr>pdfFileInput := Some x\<rparr>) =
     v\<lparr>pdfFileInput := map_option (\<lambda>f. x) (pdfFileInput v)\<rparr>"
  by (cases "pdfFileInput v") simp_all

lemma set_selectedFileName:
  "(case selectedFileName v of None \<Rightarrow> v | Some f \<Rightarrow> v\<lparr>selectedFileName := Some x\<rparr>) =
     v\<lparr>selectedFileName := map_option (\<lambda>f. x) (selectedFileName v)\<rparr>"
  by (cases "selectedFileName v") simp_all

lemma set_uploadProgress:
  "(case uploadProgress v of None \<Rightarrow> v | Some f \<Rightarrow> v\<lparr>uploadProgress := Some x\<rparr>) =
     v\<lparr>uploadProgress := map_option (\<lambda>f. x) (uploadProgress v)\<rparr>"
  by (cases "uploadProgress v") simp_all

lemma set_progressBar:
  "(case progressBar v of None \<Rightarrow> v | Some f \<Rightarrow> v\<lparr>progressBar := Some x\<rparr>) =
     v\<lparr>progressBar := map_option (\<lambda>f. x) (progressBar v)\<rparr>"
  by (cases "progressBar v") simp_all

lemma set_uploadStatus:
  "(case uploadStatus v of None \<Rightarrow> v | Some st \<Rightarrow> v\<lparr>uploadStatus := Some (g st)\<rparr>) =
     v\<lparr>uploadStatus := map_option g (uploadStatus v)\<rparr>"
  by (cases "uploadStatus v") simp_all

lemma set_confirmUploadBtn:
  "(case confirmUploadBtn v of None \<Rightarrow> v | Some f \<Rightarrow> v\<lparr>confirmUploadBtn := Some x\<rparr>) =
     v\<lparr>confirmUploadBtn := map_option (\<lambda>f. x) (confirmUploadBtn v)\<rparr>"
  by (cases "confirmUploadBtn v") simp_all

lemma set_pdfUploadModal:
  "(case pdfUploadModal v of None \<Rightarrow> v | Some f \<Rightarrow> v\<lparr>pdfUploadModal := Some x\<rparr>) =
     v\<lparr>pdfUploadModal := map_option (\<lambda>f. x) (pdfUploadModal v)\<rparr>"
  by (cases "pdfUploadModal v") simp_all

lemmas set_element =
  set_pdfFileInput set_selectedFileName set_uploadProgress set_progressBar
  set_uploadStatus set_confirmUploadBtn set_pdfUploadModal

lemma cancelUpload_closed:
  "cancelUploadBtn u = Some c \<Longrightarrow>
   cancelUpload u =
     u\<lparr>pdfFileInput := map_option (\<lambda>f. None) (pdfFileInput u),
       selectedFileName := map_option (\<lambda>f. ''No file selected'') (selectedFileName u),
       uploadProgress := map_option (\<lambda>f. ''none'') (uploadProgress u),
       progressBar := map_option (\<lambda>f. ''0%'') (progressBar u),
       uploadStatus :=
         map_option (\<lambda>st. st\<lparr>status_text := ''Uploading...'', status_color := []\<rparr>)
           (uploadStatus u),
       confirmUploadBtn := map_option (\<lambda>f. True) (confirmUploadBtn u),
       pdfUploadModal := map_option (\<lambda>f. ''none'') (pdfUploadModal u)\<rparr>"
  by (simp add: cancelUpload_def set_element)

lemma cancelUpload_keeps_button: "cancelUploadBtn (cancelUpload u) = cancelUploadBtn u"
proof (cases "cancelUploadBtn u")
  case None
  then show ?thesis by (simp add: cancelUpload_def)
next
  case (Some c)
  then show ?thesis by (simp add: cancelUpload_closed)
qed

text \<open>
  Claim C9. Cancelling twice gives the state that cancelling once gives, from any
  state of the dialog. On a page that has the dialog's elements, cancelling clears the
  file input, sets the file name label to \<^verbatim>\<open>No file selected\<close>, hides the progress
  area, sets the bar to \<^verbatim>\<open>0%\<close>, resets the status text and colour, disables confirm
  and hides the modal.
\<close>

theorem cancelUpload_resets:
  "cancelUpload (cancelUpload u) = cancelUpload u
   \<and> (cancelUploadBtn u = Some c \<and> pdfFileInput u = Some f \<and> selectedFileName u = Some n
        \<and> uploadProgress u = Some p \<and> progressBar u = Some w \<and> uploadStatus u = Some st
        \<and> confirmUploadBtn u = Some b \<and> pdfUploadModal u = Some m \<longrightarrow>
      cancelUpload u =
        u\<lparr>pdfFileInput := Some None, selectedFileName := Some ''No file selected'',
          uploadProgress := Some ''none'', progressBar := Some ''0%'',
          uploadStatus := Some (st\<lparr>status_text := ''Uploading...'', status_color := []\<rparr>),
          confirmUploadBtn := Some True, pdfUploadModal := Some ''none''\<rparr>)"
proof (intro conjI impI)
  show "cancelUpload (cancelUpload u) = cancelUpload u"
  proof (cases "cancelUploadBtn u")
    case None
    then show ?thesis by (simp add: cancelUpload_def)
  next
    case (Some c0)
    have again: "cancelUploadBtn (cancelUpload u) = Some c0"
      using Some by (simp add: cancelUpload_keeps_button)
    show ?thesis
      unfolding cancelUpload_closed [OF again]
      by (simp add: cancelUpload_closed [OF Some] option.map_comp comp_def)
  qed
next
  assume "cancelUploadBtn u = Some c \<and> pdfFileInput u = Some f \<and> selectedFileName u = Some n
        \<and> uploadProgress u = Some p \<and> progressBar u = Some w \<and> uploadStatus u = Some st
        \<and> confirmUploadBtn u = Some b \<and> pdfUploadModal u = Some m"
  then show "cancelUpload u =
        u\<lparr>pdfFileInput := Some None, selectedFileName := Some ''No file selected'',
          uploadProgress := Some ''none'', progressBar := Some ''0%'',
          uploadStatus := Some (st\<lparr>status_text := ''Uploading...'', status_color := []\<rparr>),
          confirmUploadBtn := Some True, pdfUploadModal := Some ''none''\<rparr>"
    by (simp add: cancelUpload_closed)
qed

theorem cancelUpload_resets_witness:
  "uploadStatus failed_dialog =
     Some \<lparr>status_text = ''Error: Upload failed: Internal Server Error'',
           status_color = ''red''\<rparr>
   \<and> cancelUpload failed_dialog =
       \<lparr>pdfUploadModal = Some ''none'', pdfFileInput = Some None,
        selectedFileName = Some ''No file selected'', confirmUploadBtn = Some True,
        cancelUploadBtn = Some False, uploadProgress = Some ''none'',
        progressBar = Some ''0%'',
        uploadStatus = Some \<lparr>status_text = ''Uploading...'', status_color = []\<rparr>,
        upload_requests = [UploadPdf ''story.pdf''], reload_scheduled = False\<rparr>
   \<and> cancelUpload (cancelUpload failed_dialog) = cancelUpload failed_dialog"
proof -
  have shape: "failed_dialog =
       \<lparr>pdfUploadModal = Some ''block'', pdfFileInput = Some (Some ''story.pdf''),
        selectedFileName = Some ''story.pdf'', confirmUploadBtn = Some False,
        cancelUploadBtn = Some False, uploadProgress = Some ''block'',
        progressBar = Some ''0%'',
        uploadStatus = Some \<lparr>status_text = ''Error: Upload failed: Internal Server Error'',
                               status_color = ''red''\<rparr>,
        upload_requests = [UploadPdf ''story.pdf''], reload_scheduled = False\<rparr>"
    by (simp add: failed_dialog_def confirmUpload_def chosen_dialog_def server_error_def
        ok_def upload_failed_def upload_finally_def)
  note both = cancelUpload_resets
      [of failed_dialog False "Some ''story.pdf''" "''story.pdf''" "''block''" "''0%''"
          "\<lparr>status_text = ''Error: Upload failed: Internal Server Error'',
            status_color = ''red''\<rparr>" False "''block''"]
  have idem: "cancelUpload (cancelUpload failed_dialog) = cancelUpload failed_dialog"
    using both by (rule conjunct1)
  have reset: "cancelUpload failed_dialog =
       \<lparr>pdfUploadModal = Some ''none'', pdfFileInput = Some None,
        selectedFileName = Some ''No file selected'', confirmUploadBtn = Some True,
        cancelUploadBtn = Some False, uploadProgress = Some ''none'',
        progressBar = Some ''0%'',
        uploadStatus = Some \<lparr>status_text = ''Uploading...'', status_color = []\<rparr>,
        upload_requests = [UploadPdf ''story.pdf''], reload_scheduled = False\<rparr>"
    using both [THEN conjunct2] by (simp add: shape)
  have st: "uploadStatus failed_dialog =
     Some \<lparr>status_text = ''Error: Upload failed: Internal Server Error'',
           status_color = ''red''\<rparr>"
    by (simp add: shape)
  from st reset idem show ?thesis by blast
qed

end
